theory Spec2Isabelle
  imports Main
begin

text \<open>
  A model of \<open>main.py\<close> of the YouTube transcript service: the identifier
  normalizer \<open>extract_video_id\<close>, the extraction pipeline \<open>get_yt_dlp_data\<close> and the
  two handlers of \<open>/transcript\<close>.  Exceptions are values, and a function that starts
  subprocesses also returns the commands it ran.
\<close>

section \<open>Identifier normalizer\<close>

text \<open>
  A Python \<open>str\<close> is modelled as a \<open>string\<close>, one \<open>char\<close> per code point, so \<open>len\<close> is
  \<open>length\<close>; the code points are those below 256, and the program treats every
  character outside \<open>[a-zA-Z0-9_-]\<close>, \<open>?\<close>, \<open>&\<close>, \<open>=\<close>, \<open>.\<close>, \<open>/\<close> and the line feed alike.
  The three regular expressions of \<open>extract_video_id\<close> have no repetition other than
  the fixed \<open>{11}\<close>, so a match at a given position is decided by looking at a fixed
  number of characters.
\<close>

text \<open>The character class \<open>[a-zA-Z0-9_-]\<close>.\<close>

definition is_id_char :: "char \<Rightarrow> bool" where
  "is_id_char c \<longleftrightarrow>
     (let n = (of_char c :: nat) in
        (97 \<le> n \<and> n \<le> 122) \<or> (65 \<le> n \<and> n \<le> 90) \<or> (48 \<le> n \<and> n \<le> 57)
        \<or> c = CHR ''_'' \<or> c = CHR ''-'')"

text \<open>The group \<open>([a-zA-Z0-9_-]{11})\<close> matched at the start of \<open>s\<close>: the captured text.\<close>

definition id11 :: "string \<Rightarrow> string option" where
  "id11 s = (if 11 \<le> length s \<and> list_all is_id_char (take 11 s) then Some (take 11 s) else None)"

text \<open>\<open>[?&]v=([a-zA-Z0-9_-]{11})\<close> matched at the start of \<open>s\<close>.\<close>

definition match_v :: "string \<Rightarrow> string option" where
  "match_v s =
     (case s of
        c # v # e # rest \<Rightarrow>
          if (c = CHR ''?'' \<or> c = CHR ''&'') \<and> v = CHR ''v'' \<and> e = CHR ''='' then id11 rest else None
      | _ \<Rightarrow> None)"

text \<open>\<open>youtu\.be/([a-zA-Z0-9_-]{11})\<close> matched at the start of \<open>s\<close>.\<close>

definition match_be :: "string \<Rightarrow> string option" where
  "match_be s = (if take 9 s = ''youtu.be/'' then id11 (drop 9 s) else None)"

text \<open>
  \<open>^([a-zA-Z0-9_-]{11})$\<close>: without the MULTILINE flag \<open>^\<close> matches at position 0
  only, and \<open>$\<close> matches at the end of the string and also just before a line feed that
  is the last character of the string.
\<close>

definition match_whole :: "string \<Rightarrow> string option" where
  "match_whole s =
     (case id11 s of
        Some g \<Rightarrow> if drop 11 s = [] \<or> drop 11 s = [CHR 0x0A] then Some g else None
      | None \<Rightarrow> None)"

text \<open>
  \<open>re.search\<close> for an unanchored pattern: the start positions are tried from left to
  right, the empty suffix last, and the first position that matches wins.
\<close>

fun re_search :: "(string \<Rightarrow> string option) \<Rightarrow> string \<Rightarrow> string option" where
  "re_search m [] = m []"
| "re_search m (c # cs) = (case m (c # cs) of Some g \<Rightarrow> Some g | None \<Rightarrow> re_search m cs)"

text \<open>The loop over \<open>patterns\<close>: group 1 of the first pattern that matches, else the input.\<close>

fun first_match :: "(string \<Rightarrow> string option) list \<Rightarrow> string \<Rightarrow> string" where
  "first_match [] url = url"
| "first_match (p # ps) url = (case p url of Some g \<Rightarrow> g | None \<Rightarrow> first_match ps url)"

definition patterns :: "(string \<Rightarrow> string option) list" where
  "patterns = [re_search match_v, re_search match_be, match_whole]"

definition extract_video_id :: "string \<Rightarrow> string" where
  "extract_video_id url = first_match patterns url"

section \<open>Python values, exceptions and the outside world\<close>

text \<open>
  \<open>json.loads\<close> yields \<open>None\<close>, \<open>bool\<close>, \<open>int\<close>, \<open>float\<close>, \<open>str\<close>, \<open>list\<close> and \<open>dict\<close>
  values.  The program never looks inside a float; \<open>Finite m e\<close> stands for \<open>m * 2 ^ e\<close>.
  A \<open>dict\<close> is an association list holding every key once, in insertion order.
\<close>

datatype pyfloat = Finite int int | PosInf | NegInf | NaN

datatype json =
    JNull
  | JBool bool
  | JInt int
  | JFloat pyfloat
  | JStr string
  | JArr "json list"
  | JObj "(string \<times> json) list"

text \<open>
  An exception is its class and the text \<open>str(e)\<close> gives for it.  Every class listed is
  a subclass of \<open>Exception\<close>; \<open>fastapi.HTTPException\<close>, which only the handler raises,
  is kept apart below.
\<close>

datatype exc_class =
    TimeoutExpired
  | JSONDecodeError
  | Exception
  | TypeError
  | KeyError
  | IndexError
  | AttributeError
  | ValueError
  | ParseError
  | OSError
  | ValidationError

datatype pyexc = PyExc exc_class string

fun str_exc :: "pyexc \<Rightarrow> string" where
  "str_exc (PyExc c m) = m"

record CompletedProcess =
  returncode :: int
  stdout :: string
  stderr :: string

text \<open>
  An \<open>xml.etree.ElementTree.Element\<close>: its tag, its \<open>text\<close> attribute (the character
  data before the first child, \<open>None\<close> when there is none) and its children.
\<close>

datatype element = Element (etag: string) (etext: "string option") (children: "element list")

text \<open>
  What the program does not compute itself is a parameter of the model:
  \<^item> \<open>run cmd timeout\<close> is \<open>subprocess.run(cmd, capture_output=True, text=True,
    timeout=timeout)\<close>: the completed process, or the exception it raises
    (\<open>TimeoutExpired\<close> when the bound is exceeded);
  \<^item> \<open>loads\<close> is \<open>json.loads\<close> and \<open>fromstring\<close> is \<open>ElementTree.fromstring\<close>;
  \<^item> \<open>describe c operands\<close> is the message of an exception of class \<open>c\<close> that the
    interpreter raises for an operation on \<open>operands\<close>;
  \<^item> \<open>lax_bool\<close>, \<open>lax_str\<close>, \<open>lax_int\<close> say how pydantic treats a value that is not
    already of the field's type (\<open>None\<close>: rejected), and \<open>validation_msg\<close> is the text
    of its \<open>ValidationError\<close>.
\<close>

record world =
  run :: "string list \<Rightarrow> nat \<Rightarrow> pyexc + CompletedProcess"
  loads :: "string \<Rightarrow> pyexc + json"
  fromstring :: "string \<Rightarrow> pyexc + element"
  describe :: "exc_class \<Rightarrow> json list \<Rightarrow> string"
  lax_bool :: "json \<Rightarrow> bool option"
  lax_str :: "json \<Rightarrow> string option"
  lax_int :: "json \<Rightarrow> int option"
  validation_msg :: "(string \<times> json) list \<Rightarrow> string"

text \<open>Sequencing of two steps, the first of which may raise.\<close>

fun then_do :: "pyexc + 'a \<Rightarrow> ('a \<Rightarrow> pyexc + 'b) \<Rightarrow> pyexc + 'b" where
  "then_do (Inl e) f = Inl e"
| "then_do (Inr v) f = f v"

definition raise :: "world \<Rightarrow> exc_class \<Rightarrow> json list \<Rightarrow> pyexc + 'a" where
  "raise w c operands = Inl (PyExc c (describe w c operands))"

subsection \<open>The built-in operations the program uses\<close>

text \<open>\<open>k in s\<close> for two strings: \<open>k\<close> occurs in \<open>s\<close> as a contiguous substring.\<close>

fun contains :: "string \<Rightarrow> string \<Rightarrow> bool" where
  "contains k [] = (k = [])"
| "contains k (c # cs) = (take (length k) (c # cs) = k \<or> contains k cs)"

text \<open>\<open>k in v\<close> for a string \<open>k\<close>.\<close>

fun py_in :: "world \<Rightarrow> string \<Rightarrow> json \<Rightarrow> pyexc + bool" where
  "py_in w k (JObj kvs) = Inr (k \<in> set (map fst kvs))"
| "py_in w k (JArr xs) = Inr (JStr k \<in> set xs)"
| "py_in w k (JStr s) = Inr (contains k s)"
| "py_in w k v = raise w TypeError [JStr k, v]"

text \<open>\<open>v[k]\<close> for a string \<open>k\<close>.\<close>

fun py_getitem :: "world \<Rightarrow> json \<Rightarrow> string \<Rightarrow> pyexc + json" where
  "py_getitem w (JObj kvs) k =
     (case map_of kvs k of Some x \<Rightarrow> Inr x | None \<Rightarrow> raise w KeyError [JObj kvs, JStr k])"
| "py_getitem w v k = raise w TypeError [v, JStr k]"

text \<open>\<open>v[0]\<close>.\<close>

fun py_getitem0 :: "world \<Rightarrow> json \<Rightarrow> pyexc + json" where
  "py_getitem0 w (JArr (x # xs)) = Inr x"
| "py_getitem0 w (JArr []) = raise w IndexError [JArr [], JInt 0]"
| "py_getitem0 w (JStr (c # cs)) = Inr (JStr [c])"
| "py_getitem0 w (JStr []) = raise w IndexError [JStr [], JInt 0]"
| "py_getitem0 w (JObj kvs) = raise w KeyError [JObj kvs, JInt 0]"
| "py_getitem0 w v = raise w TypeError [v, JInt 0]"

text \<open>\<open>v.get(k, d)\<close>: only a \<open>dict\<close> has the method.\<close>

fun py_get :: "world \<Rightarrow> json \<Rightarrow> string \<Rightarrow> json \<Rightarrow> pyexc + json" where
  "py_get w (JObj kvs) k d = Inr (case map_of kvs k of Some x \<Rightarrow> x | None \<Rightarrow> d)"
| "py_get w v k d = raise w AttributeError [v, JStr ''get'']"

text \<open>\<open>sep.join(v)\<close>: every item of the iterable must be a \<open>str\<close>.\<close>

fun str_join :: "string \<Rightarrow> string list \<Rightarrow> string" where
  "str_join sep [] = []"
| "str_join sep [x] = x"
| "str_join sep (x # y # ys) = x @ sep @ str_join sep (y # ys)"

fun strs_of :: "json list \<Rightarrow> string list option" where
  "strs_of [] = Some []"
| "strs_of (JStr s # xs) = map_option ((#) s) (strs_of xs)"
| "strs_of (x # xs) = None"

fun py_join :: "world \<Rightarrow> string \<Rightarrow> json \<Rightarrow> pyexc + string" where
  "py_join w sep (JArr xs) =
     (case strs_of xs of
        Some ss \<Rightarrow> Inr (str_join sep ss)
      | None \<Rightarrow> raise w TypeError [JStr sep, JArr xs])"
| "py_join w sep (JStr s) = Inr (str_join sep (map (\<lambda>c. [c]) s))"
| "py_join w sep (JObj kvs) = Inr (str_join sep (map fst kvs))"
| "py_join w sep v = raise w TypeError [JStr sep, v]"

text \<open>
  \<open>root.findall('.//text')\<close>: \<open>iter\<close> walks an element and its descendants in document
  order; the path selects the descendants of \<open>root\<close>, not \<open>root\<close> itself, whose tag is
  \<open>text\<close>.
\<close>

fun iter :: "element \<Rightarrow> element list" where
  "iter (Element t x cs) = Element t x cs # concat (map iter cs)"

definition findall_text :: "element \<Rightarrow> element list" where
  "findall_text root = filter (\<lambda>e. etag e = ''text'') (concat (map iter (children root)))"

text \<open>The list \<open>[text.text for text in ...]\<close>, as a Python list.\<close>

definition texts :: "element list \<Rightarrow> json" where
  "texts es = JArr (map (\<lambda>e. case etext e of None \<Rightarrow> JNull | Some s \<Rightarrow> JStr s) es)"

section \<open>get_yt_dlp_data\<close>

text \<open>
  A function that runs subprocesses returns, beside its result, the commands it handed
  to \<open>subprocess.run\<close>, in order.
\<close>

definition yt_dlp_cmd :: "string \<Rightarrow> string list" where
  "yt_dlp_cmd video_id =
     [''yt-dlp'', ''--dump-json'', ''--write-subs'', ''--write-auto-subs'', ''--sub-lang'', ''en'',
      ''--skip-download'', ''https://www.youtube.com/watch?v='' @ video_id]"

definition curl_cmd :: "string \<Rightarrow> string list" where
  "curl_cmd sub_file = [''curl'', ''-s'', sub_file]"

text \<open>The condition \<open>key in data and 'en' in data[key]\<close>.\<close>

definition has_en :: "world \<Rightarrow> string \<Rightarrow> json \<Rightarrow> pyexc + bool" where
  "has_en w key data =
     then_do (py_in w key data) (\<lambda>b.
       if b then then_do (py_getitem w data key) (py_in w ''en'') else Inr False)"

text \<open>The expression \<open>data[key]['en'][0]['url']\<close>.\<close>

definition track_url :: "world \<Rightarrow> string \<Rightarrow> json \<Rightarrow> pyexc + json" where
  "track_url w key data =
     then_do (py_getitem w data key) (\<lambda>tracks.
     then_do (py_getitem w tracks ''en'') (\<lambda>entries.
     then_do (py_getitem0 w entries) (\<lambda>entry.
       py_getitem w entry ''url'')))"

text \<open>
  The \<open>if\<close> / \<open>elif\<close> of lines 96 and 109: which \<open>sub_file\<close> is fetched, \<open>None\<close> when
  neither branch is taken.
\<close>

definition select_track :: "world \<Rightarrow> json \<Rightarrow> pyexc + json option" where
  "select_track w data =
     then_do (has_en w ''subtitles'' data) (\<lambda>manual.
       if manual then then_do (track_url w ''subtitles'' data) (\<lambda>sub_file. Inr (Some sub_file))
       else then_do (has_en w ''automatic_captions'' data) (\<lambda>automatic.
         if automatic
         then then_do (track_url w ''automatic_captions'' data) (\<lambda>sub_file. Inr (Some sub_file))
         else Inr None))"

text \<open>Lines 105-107 (and 117-119): parse the fetched text and join the cue texts.\<close>

definition parse_transcript :: "world \<Rightarrow> string \<Rightarrow> pyexc + string" where
  "parse_transcript w out =
     then_do (fromstring w out) (\<lambda>root. py_join w '' '' (texts (findall_text root)))"

text \<open>
  Lines 98-107 (and 111-119, the same text).  An argument of \<open>subprocess.run\<close> that is
  not a \<open>str\<close> is refused with a \<open>TypeError\<close> before any process is started.
\<close>

fun fetch_transcript :: "world \<Rightarrow> json \<Rightarrow> (pyexc + string) \<times> string list list" where
  "fetch_transcript w (JStr sub_file) =
     (then_do (run w (curl_cmd sub_file) 30) (\<lambda>transcript_result.
        parse_transcript w (stdout transcript_result)),
      [curl_cmd sub_file])"
| "fetch_transcript w v = (raise w TypeError [v], [])"

definition caption_stage :: "world \<Rightarrow> json \<Rightarrow> (pyexc + string) \<times> string list list" where
  "caption_stage w data =
     (case select_track w data of
        Inl e \<Rightarrow> (Inl e, [])
      | Inr None \<Rightarrow> (Inr [], [])
      | Inr (Some sub_file) \<Rightarrow> fetch_transcript w sub_file)"

text \<open>Lines 122-137: the dictionary that is returned.\<close>

definition assemble ::
  "world \<Rightarrow> string \<Rightarrow> json \<Rightarrow> string \<Rightarrow> pyexc + (string \<times> json) list" where
  "assemble w video_id data transcript =
     then_do (py_get w data ''title'' (JStr [])) (\<lambda>title.
     then_do (py_get w data ''channel'' (JStr [])) (\<lambda>channel.
     then_do (py_get w data ''channel_url'' (JStr [])) (\<lambda>channel_url.
     then_do (py_get w data ''description'' (JStr [])) (\<lambda>description.
     then_do (py_get w data ''duration'' (JInt 0)) (\<lambda>duration.
     then_do (py_get w data ''view_count'' (JInt 0)) (\<lambda>view_count.
     then_do (py_get w data ''like_count'' (JInt 0)) (\<lambda>like_count.
     then_do (py_get w data ''upload_date'' (JStr [])) (\<lambda>upload_date.
     then_do (py_get w data ''tags'' (JArr [])) (\<lambda>tags_list.
     then_do (py_join w '', '' tags_list) (\<lambda>tags.
     then_do (py_get w data ''categories'' (JArr [])) (\<lambda>categories_list.
     then_do (py_join w '', '' categories_list) (\<lambda>categories.
     then_do (py_get w data ''thumbnail'' (JStr [])) (\<lambda>thumbnail.
       Inr [(''videoTitle'', title),
            (''videoId'', JStr video_id),
            (''channelName'', channel),
            (''channelUrl'', channel_url),
            (''description'', description),
            (''duration'', duration),
            (''viewCount'', view_count),
            (''likeCount'', like_count),
            (''uploadDate'', upload_date),
            (''tags'', JStr tags),
            (''categories'', JStr categories),
            (''thumbnailUrl'', thumbnail),
            (''transcript'', JStr transcript),
            (''length'', JInt (int (length transcript)))])))))))))))))"

text \<open>The body of the \<open>try\<close>, lines 82-137.\<close>

definition get_yt_dlp_data_try ::
  "world \<Rightarrow> string \<Rightarrow> (pyexc + (string \<times> json) list) \<times> string list list" where
  "get_yt_dlp_data_try w video_id =
     (let cmd = yt_dlp_cmd video_id in
      case run w cmd 60 of
        Inl e \<Rightarrow> (Inl e, [cmd])
      | Inr result \<Rightarrow>
          if returncode result \<noteq> 0
          then (Inl (PyExc Exception (''yt-dlp error: '' @ stderr result)), [cmd])
          else
            (case loads w (stdout result) of
               Inl e \<Rightarrow> (Inl e, [cmd])
             | Inr data \<Rightarrow>
                 (case caption_stage w data of
                    (Inl e, fetched) \<Rightarrow> (Inl e, cmd # fetched)
                  | (Inr transcript, fetched) \<Rightarrow>
                      (assemble w video_id data transcript, cmd # fetched))))"

text \<open>The three \<open>except\<close> clauses, lines 139-144, in their order.\<close>

fun reraise :: "pyexc \<Rightarrow> pyexc" where
  "reraise (PyExc TimeoutExpired m) = PyExc Exception ''Request timeout''"
| "reraise (PyExc JSONDecodeError m) = PyExc Exception ''Invalid JSON response from yt-dlp''"
| "reraise (PyExc c m) = PyExc Exception (''Error: '' @ m)"

definition get_yt_dlp_data ::
  "world \<Rightarrow> string \<Rightarrow> (pyexc + (string \<times> json) list) \<times> string list list" where
  "get_yt_dlp_data w video_id =
     (case get_yt_dlp_data_try w video_id of
        (Inl e, cmds) \<Rightarrow> (Inl (reraise e), cmds)
      | (Inr d, cmds) \<Rightarrow> (Inr d, cmds))"

section \<open>The request handlers\<close>

record TranscriptRequest =
  video_id :: string

record TranscriptResponse =
  success :: bool
  videoId :: string
  videoTitle :: "string option"
  channelName :: "string option"
  channelUrl :: "string option"
  description :: "string option"
  duration :: "int option"
  viewCount :: "int option"
  likeCount :: "int option"
  uploadDate :: "string option"
  tags :: "string option"
  categories :: "string option"
  thumbnailUrl :: "string option"
  transcript :: "string option"
  length_field :: "int option"
  error :: "string option"

text \<open>
  Validation of one keyword argument by pydantic: a value of the field's own type is
  kept, \<open>None\<close> is kept by an \<open>Optional\<close> field, which also defaults to \<open>None\<close> when the
  argument is absent; the outer \<open>None\<close> of the result means the value is rejected.
\<close>

fun req_bool :: "world \<Rightarrow> json option \<Rightarrow> bool option" where
  "req_bool w None = None"
| "req_bool w (Some JNull) = None"
| "req_bool w (Some (JBool b)) = Some b"
| "req_bool w (Some v) = lax_bool w v"

fun req_str :: "world \<Rightarrow> json option \<Rightarrow> string option" where
  "req_str w None = None"
| "req_str w (Some JNull) = None"
| "req_str w (Some (JStr s)) = Some s"
| "req_str w (Some v) = lax_str w v"

fun opt_str :: "world \<Rightarrow> json option \<Rightarrow> string option option" where
  "opt_str w None = Some None"
| "opt_str w (Some JNull) = Some None"
| "opt_str w (Some (JStr s)) = Some (Some s)"
| "opt_str w (Some v) = map_option Some (lax_str w v)"

fun opt_int :: "world \<Rightarrow> json option \<Rightarrow> int option option" where
  "opt_int w None = Some None"
| "opt_int w (Some JNull) = Some None"
| "opt_int w (Some (JInt i)) = Some (Some i)"
| "opt_int w (Some v) = map_option Some (lax_int w v)"

text \<open>
  \<open>TranscriptResponse(**kw)\<close>: every field is validated; the object is built when all
  are accepted, and a \<open>ValidationError\<close> is raised otherwise.
\<close>

definition validated :: "world \<Rightarrow> (string \<times> json) list \<Rightarrow> TranscriptResponse option" where
  "validated w kw =
     Option.bind (req_bool w (map_of kw ''success'')) (\<lambda>v1.
     Option.bind (req_str w (map_of kw ''videoId'')) (\<lambda>v2.
     Option.bind (opt_str w (map_of kw ''videoTitle'')) (\<lambda>v3.
     Option.bind (opt_str w (map_of kw ''channelName'')) (\<lambda>v4.
     Option.bind (opt_str w (map_of kw ''channelUrl'')) (\<lambda>v5.
     Option.bind (opt_str w (map_of kw ''description'')) (\<lambda>v6.
     Option.bind (opt_int w (map_of kw ''duration'')) (\<lambda>v7.
     Option.bind (opt_int w (map_of kw ''viewCount'')) (\<lambda>v8.
     Option.bind (opt_int w (map_of kw ''likeCount'')) (\<lambda>v9.
     Option.bind (opt_str w (map_of kw ''uploadDate'')) (\<lambda>v10.
     Option.bind (opt_str w (map_of kw ''tags'')) (\<lambda>v11.
     Option.bind (opt_str w (map_of kw ''categories'')) (\<lambda>v12.
     Option.bind (opt_str w (map_of kw ''thumbnailUrl'')) (\<lambda>v13.
     Option.bind (opt_str w (map_of kw ''transcript'')) (\<lambda>v14.
     Option.bind (opt_int w (map_of kw ''length'')) (\<lambda>v15.
     Option.bind (opt_str w (map_of kw ''error'')) (\<lambda>v16.
       Some \<lparr>success = v1, videoId = v2, videoTitle = v3, channelName = v4,
             channelUrl = v5, description = v6, duration = v7, viewCount = v8,
             likeCount = v9, uploadDate = v10, tags = v11, categories = v12,
             thumbnailUrl = v13, transcript = v14, length_field = v15,
             error = v16\<rparr>))))))))))))))))"

definition TranscriptResponse_init ::
  "world \<Rightarrow> (string \<times> json) list \<Rightarrow> pyexc + TranscriptResponse" where
  "TranscriptResponse_init w kw =
     (case validated w kw of
        Some r \<Rightarrow> Inr r
      | None \<Rightarrow> Inl (PyExc ValidationError (validation_msg w kw)))"

text \<open>
  What leaves the \<open>try\<close> block of a handler: the \<open>HTTPException\<close> it raises itself
  (status code and detail), or any other exception.
\<close>

datatype raised = HTTPException nat string | Other pyexc

text \<open>The keyword arguments \<open>k=data['k']\<close> of lines 206-218, in their order.\<close>

definition response_keys :: "string list" where
  "response_keys =
     [''videoTitle'', ''channelName'', ''channelUrl'', ''description'', ''duration'',
      ''viewCount'', ''likeCount'', ''uploadDate'', ''tags'', ''categories'', ''thumbnailUrl'',
      ''transcript'', ''length'']"

fun getitems ::
  "world \<Rightarrow> (string \<times> json) list \<Rightarrow> string list \<Rightarrow> pyexc + (string \<times> json) list" where
  "getitems w d [] = Inr []"
| "getitems w d (k # ks) =
     then_do (py_getitem w (JObj d) k) (\<lambda>v.
     then_do (getitems w d ks) (\<lambda>kw. Inr ((k, v) # kw)))"

text \<open>The body of the \<open>try\<close> of \<open>get_transcript\<close>, lines 190-219.\<close>

definition get_transcript_try ::
  "world \<Rightarrow> TranscriptRequest \<Rightarrow> (raised + TranscriptResponse) \<times> string list list" where
  "get_transcript_try w request =
     (let vid = extract_video_id (video_id request) in
      if length vid \<noteq> 11
      then (Inl (HTTPException 400 (''Invalid video_id: '' @ vid @ ''. Must be 11 characters.'')), [])
      else
        (case get_yt_dlp_data w vid of
           (Inl e, cmds) \<Rightarrow> (Inl (Other e), cmds)
         | (Inr data, cmds) \<Rightarrow>
             (case then_do (getitems w data response_keys) (\<lambda>kw.
                     TranscriptResponse_init w
                       ((''success'', JBool True) # (''videoId'', JStr vid) # kw)) of
                Inl e \<Rightarrow> (Inl (Other e), cmds)
              | Inr r \<Rightarrow> (Inr r, cmds))))"

text \<open>
  \<open>get_transcript\<close> with its two \<open>except\<close> clauses.  A result \<open>Inr r\<close> is the body of a
  response with status 200; \<open>Inl (HTTPException s d)\<close> is the error response with
  status \<open>s\<close>.
\<close>

definition get_transcript ::
  "world \<Rightarrow> TranscriptRequest \<Rightarrow> (raised + TranscriptResponse) \<times> string list list" where
  "get_transcript w request =
     (case get_transcript_try w request of
        (Inl (HTTPException s d), cmds) \<Rightarrow> (Inl (HTTPException s d), cmds)
      | (Inl (Other e), cmds) \<Rightarrow>
          (case TranscriptResponse_init w
                  [(''success'', JBool False), (''videoId'', JStr (video_id request)),
                   (''error'', JStr (str_exc e))] of
             Inl e' \<Rightarrow> (Inl (Other e'), cmds)
           | Inr r \<Rightarrow> (Inr r, cmds))
      | (Inr r, cmds) \<Rightarrow> (Inr r, cmds))"

definition get_transcript_get ::
  "world \<Rightarrow> string \<Rightarrow> (raised + TranscriptResponse) \<times> string list list" where
  "get_transcript_get w v = get_transcript w \<lparr>video_id = v\<rparr>"

section \<open>Stubs for the outside world\<close>

text \<open>
  A world given by the outcome of the extraction tool, of \<open>json.loads\<close>, of the caption
  fetch and of the XML parser.
\<close>

definition stub ::
  "(pyexc + CompletedProcess) \<Rightarrow> (pyexc + json) \<Rightarrow> (pyexc + CompletedProcess) \<Rightarrow>
   (pyexc + element) \<Rightarrow> world" where
  "stub tool parsed fetch xml =
     \<lparr>run = (\<lambda>cmd timeout. if take 1 cmd = [''yt-dlp''] then tool else fetch),
      loads = (\<lambda>out. parsed),
      fromstring = (\<lambda>out. xml),
      describe = (\<lambda>c operands. ''interpreter error''),
      lax_bool = (\<lambda>v. None),
      lax_str = (\<lambda>v. None),
      lax_int = (\<lambda>v. None),
      validation_msg = (\<lambda>kw. ''validation error'')\<rparr>"

definition completed :: "int \<Rightarrow> string \<Rightarrow> string \<Rightarrow> pyexc + CompletedProcess" where
  "completed rc out err = Inr \<lparr>returncode = rc, stdout = out, stderr = err\<rparr>"

text \<open>The response built by the second \<open>except\<close> clause of \<open>get_transcript\<close>.\<close>

definition failure_response :: "string \<Rightarrow> string \<Rightarrow> TranscriptResponse" where
  "failure_response raw msg =
     \<lparr>success = False, videoId = raw, videoTitle = None, channelName = None,
      channelUrl = None, description = None, duration = None, viewCount = None,
      likeCount = None, uploadDate = None, tags = None, categories = None,
      thumbnailUrl = None, transcript = None, length_field = None, error = Some msg\<rparr>"

section \<open>Definitions used to state the claims\<close>

text \<open>
  The normalizer as the specification words it: the first two patterns as above, and
  as third pattern ``the whole input being exactly an 11-character identifier-shaped
  string''.
\<close>

definition whole_id :: "string \<Rightarrow> string option" where
  "whole_id s = (if length s = 11 \<and> list_all is_id_char s then Some s else None)"

definition normalizer_spec :: "string \<Rightarrow> string" where
  "normalizer_spec url = first_match [re_search match_v, re_search match_be, whole_id] url"

text \<open>\<open>item_or kvs k d\<close> is the value stored under \<open>k\<close>, and \<open>d\<close> when \<open>k\<close> is absent.\<close>

definition item_or :: "(string \<times> json) list \<Rightarrow> string \<Rightarrow> json \<Rightarrow> json" where
  "item_or kvs k d = (case map_of kvs k of Some v \<Rightarrow> v | None \<Rightarrow> d)"

text \<open>
  Sample data: three timed-text documents, the second with a cue that has no text node,
  the third with cues at several depths among other elements, and three extraction
  records: one with a manual and an automatic English track, one
  with an automatic track only, one with neither.
\<close>

definition hello_doc :: element where
  "hello_doc =
     Element ''transcript'' None
       [Element ''text'' (Some ''Hello'') [], Element ''text'' (Some ''world'') []]"

definition gap_doc :: element where
  "gap_doc =
     Element ''transcript'' None [Element ''text'' (Some ''Hello'') [], Element ''text'' None []]"


definition track :: "string \<Rightarrow> json" where
  "track u = JObj [(''en'', JArr [JObj [(''ext'', JStr ''srv1''), (''url'', JStr u)]])]"

definition both_record :: json where
  "both_record =
     JObj [(''title'', JStr ''Demo''),
           (''tags'', JArr [JStr ''music'', JStr ''live'']),
           (''subtitles'', track ''https://example.com/manual''),
           (''automatic_captions'', track ''https://example.com/auto'')]"

definition auto_record :: json where
  "auto_record =
     JObj [(''title'', JStr ''Demo''),
           (''subtitles'', JObj []),
           (''automatic_captions'', track ''https://example.com/auto'')]"

definition bare_record :: json where
  "bare_record = JObj [(''title'', JStr ''Demo''), (''subtitles'', JObj []), (''automatic_captions'', JObj [])]"

section \<open>Basic facts\<close>

lemma then_do_Inr_iff: "then_do r f = Inr y \<longleftrightarrow> (\<exists>v. r = Inr v \<and> f v = Inr y)"
  by (cases r) simp_all

lemma init_failure:
  "TranscriptResponse_init w
     [(''success'', JBool False), (''videoId'', JStr raw), (''error'', JStr msg)] =
   Inr (failure_response raw msg)"
  by (simp add: TranscriptResponse_init_def validated_def failure_response_def)

lemma get_transcript_invalid:
  "length (extract_video_id (video_id request)) \<noteq> 11 \<Longrightarrow>
   get_transcript w request =
     (Inl (HTTPException 400
        (''Invalid video_id: '' @ extract_video_id (video_id request) @ ''. Must be 11 characters.'')), [])"
  by (simp add: get_transcript_def get_transcript_try_def Let_def)

lemma get_transcript_inner_failure:
  "length (extract_video_id (video_id request)) = 11 \<Longrightarrow>
   get_yt_dlp_data w (extract_video_id (video_id request)) = (Inl e, c) \<Longrightarrow>
   get_transcript w request = (Inr (failure_response (video_id request) (str_exc e)), c)"
  by (simp add: get_transcript_def get_transcript_try_def Let_def init_failure)

lemma tool_raises:
  "run w (yt_dlp_cmd vid) 60 = Inl e \<Longrightarrow>
   get_yt_dlp_data w vid = (Inl (reraise e), [yt_dlp_cmd vid])"
  by (simp add: get_yt_dlp_data_def get_yt_dlp_data_try_def Let_def)

lemma tool_nonzero:
  "run w (yt_dlp_cmd vid) 60 = Inr result \<Longrightarrow> returncode result \<noteq> 0 \<Longrightarrow>
   get_yt_dlp_data w vid =
     (Inl (PyExc Exception (''Error: yt-dlp error: '' @ stderr result)), [yt_dlp_cmd vid])"
  by (simp add: get_yt_dlp_data_def get_yt_dlp_data_try_def Let_def)

lemma tool_bad_output:
  "run w (yt_dlp_cmd vid) 60 = Inr result \<Longrightarrow> returncode result = 0 \<Longrightarrow>
   loads w (stdout result) = Inl e \<Longrightarrow>
   get_yt_dlp_data w vid = (Inl (reraise e), [yt_dlp_cmd vid])"
  by (simp add: get_yt_dlp_data_def get_yt_dlp_data_try_def Let_def)

lemma tool_loaded:
  "run w (yt_dlp_cmd vid) 60 = Inr result \<Longrightarrow> returncode result = 0 \<Longrightarrow>
   loads w (stdout result) = Inr data \<Longrightarrow>
   get_yt_dlp_data w vid =
     (case caption_stage w data of
        (Inl e, fetched) \<Rightarrow> (Inl (reraise e), yt_dlp_cmd vid # fetched)
      | (Inr tr, fetched) \<Rightarrow>
          (case assemble w vid data tr of
             Inl e \<Rightarrow> (Inl (reraise e), yt_dlp_cmd vid # fetched)
           | Inr d \<Rightarrow> (Inr d, yt_dlp_cmd vid # fetched)))"
  by (simp add: get_yt_dlp_data_def get_yt_dlp_data_try_def Let_def split: prod.splits sum.splits)

subsection \<open>The normalizer\<close>

lemma id11_Some: "id11 s = Some g \<Longrightarrow> length g = 11 \<and> list_all is_id_char g \<and> g = take 11 s"
  by (auto simp: id11_def split: if_splits)

lemma drop_single: "drop n s = [c] \<longleftrightarrow> length s = Suc n \<and> s ! n = c"
proof
  assume d: "drop n s = [c]"
  then have "length (drop n s) = 1" by simp
  then have l: "length s = Suc n" by simp
  then have "s ! n = hd (drop n s)" by (simp add: hd_drop_conv_nth)
  with d l show "length s = Suc n \<and> s ! n = c" by simp
next
  assume "length s = Suc n \<and> s ! n = c"
  then show "drop n s = [c]"
    by (metis Cons_nth_drop_Suc drop_all lessI order_refl)
qed

lemma match_whole_eq:
  "match_whole s =
     (if length s = 12 \<and> list_all is_id_char (take 11 s) \<and> s ! 11 = CHR 0x0A
      then Some (take 11 s) else whole_id s)"
  by (auto simp: match_whole_def id11_def whole_id_def drop_single split: option.splits)

lemma extract_video_id_unfold:
  "extract_video_id url =
     (case re_search match_v url of
        Some g \<Rightarrow> g
      | None \<Rightarrow>
          (case re_search match_be url of
             Some g \<Rightarrow> g
           | None \<Rightarrow> (case match_whole url of Some g \<Rightarrow> g | None \<Rightarrow> url)))"
  by (simp add: extract_video_id_def patterns_def split: option.splits)

lemma extract_video_id_vs_spec:
  "extract_video_id url =
     (if re_search match_v url = None \<and> re_search match_be url = None \<and>
         length url = 12 \<and> list_all is_id_char (take 11 url) \<and> url ! 11 = CHR 0x0A
      then take 11 url else normalizer_spec url)"
  by (simp add: extract_video_id_unfold normalizer_spec_def match_whole_eq split: option.splits)

lemma re_search_Some:
  "re_search m s = Some g \<Longrightarrow> \<exists>before rest. s = before @ rest \<and> m rest = Some g"
proof (induction s)
  case Nil
  then show ?case by simp
next
  case (Cons c cs)
  show ?case
  proof (cases "m (c # cs)")
    case None
    with Cons obtain before rest where "cs = before @ rest" "m rest = Some g" by auto
    then have "c # cs = (c # before) @ rest \<and> m rest = Some g" by simp
    then show ?thesis by blast
  next
    case (Some a)
    with Cons.prems have "c # cs = [] @ (c # cs) \<and> m (c # cs) = Some g" by simp
    then show ?thesis by blast
  qed
qed

lemma extract_video_id_shape:
  "extract_video_id url = url \<or>
   (length (extract_video_id url) = 11 \<and> list_all is_id_char (extract_video_id url))"
proof -
  have v: "length g = 11 \<and> list_all is_id_char g" if "re_search match_v url = Some g" for g
  proof -
    from re_search_Some [OF that] obtain before rest :: string where "match_v rest = Some g" by blast
    then show ?thesis
      by (auto simp: match_v_def split: list.splits if_splits dest: id11_Some)
  qed
  have b: "length g = 11 \<and> list_all is_id_char g" if "re_search match_be url = Some g" for g
  proof -
    from re_search_Some [OF that] obtain before rest :: string where "match_be rest = Some g" by blast
    then show ?thesis
      by (auto simp: match_be_def split: if_splits dest: id11_Some)
  qed
  have c: "length g = 11 \<and> list_all is_id_char g" if "match_whole url = Some g" for g
    using that by (auto simp: match_whole_def split: option.splits if_splits dest: id11_Some)
  show ?thesis
    unfolding extract_video_id_unfold using v b c by (auto split: option.splits)
qed

subsection \<open>The caption stage and the assembler\<close>

lemma caption_stage_manual:
  "has_en w ''subtitles'' data = Inr True \<Longrightarrow>
   caption_stage w data =
     (case track_url w ''subtitles'' data of
        Inl e \<Rightarrow> (Inl e, [])
      | Inr sub_file \<Rightarrow> fetch_transcript w sub_file)"
  by (simp add: caption_stage_def select_track_def split: sum.splits)

lemma caption_stage_automatic:
  "has_en w ''subtitles'' data = Inr False \<Longrightarrow>
   has_en w ''automatic_captions'' data = Inr True \<Longrightarrow>
   caption_stage w data =
     (case track_url w ''automatic_captions'' data of
        Inl e \<Rightarrow> (Inl e, [])
      | Inr sub_file \<Rightarrow> fetch_transcript w sub_file)"
  by (simp add: caption_stage_def select_track_def split: sum.splits)

lemma caption_stage_none:
  "has_en w ''subtitles'' data = Inr False \<Longrightarrow>
   has_en w ''automatic_captions'' data = Inr False \<Longrightarrow>
   caption_stage w data = (Inr [], [])"
  by (simp add: caption_stage_def select_track_def)

lemma has_en_dict:
  "map_of kvs key = Some (JObj tracks) \<Longrightarrow>
   has_en w key (JObj kvs) = Inr (''en'' \<in> fst ` set tracks)"
  by (auto simp: has_en_def dest: map_of_SomeD intro: rev_image_eqI)

lemma has_en_absent:
  "map_of kvs key = None \<Longrightarrow> has_en w key (JObj kvs) = Inr False"
  by (simp add: has_en_def map_of_eq_None_iff)

lemma assemble_shape:
  assumes "assemble w vid data tr = Inr d"
  shows "\<exists>v1 v3 v4 v5 v6 v7 v8 v9 v10 v11 v12.
           d = [(''videoTitle'', v1), (''videoId'', JStr vid), (''channelName'', v3),
                (''channelUrl'', v4), (''description'', v5), (''duration'', v6),
                (''viewCount'', v7), (''likeCount'', v8), (''uploadDate'', v9),
                (''tags'', JStr v10), (''categories'', JStr v11), (''thumbnailUrl'', v12),
                (''transcript'', JStr tr), (''length'', JInt (int (length tr)))]"
  using assms unfolding assemble_def then_do_Inr_iff by blast

lemma assemble_transcript:
  assumes "assemble w vid data tr = Inr d"
  shows "map_of d ''transcript'' = Some (JStr tr)"
    and "map_of d ''length'' = Some (JInt (int (length tr)))"
  using assemble_shape [OF assms] by auto

lemma strs_of_texts:
  "strs_of (map (\<lambda>e. case etext e of None \<Rightarrow> JNull | Some s \<Rightarrow> JStr s) es) =
     (if \<forall>e \<in> set es. etext e \<noteq> None then Some (map (\<lambda>e. the (etext e)) es) else None)"
  by (induction es) (auto split: option.splits)

lemma py_join_texts:
  "py_join w sep (texts es) =
     (if \<forall>e \<in> set es. etext e \<noteq> None then Inr (str_join sep (map (\<lambda>e. the (etext e)) es))
      else raise w TypeError [JStr sep, texts es])"
  by (auto simp: texts_def strs_of_texts)

lemma caption_stage_fetched:
  assumes "select_track w data = Inr (Some (JStr u))"
    and "run w (curl_cmd u) 30 = Inr fetched"
    and "fromstring w (stdout fetched) = Inr root"
  shows "caption_stage w data =
           (py_join w '' '' (texts (findall_text root)), [curl_cmd u])"
  using assms by (simp add: caption_stage_def parse_transcript_def)

lemma py_get_dict: "py_get w (JObj kvs) k d = Inr (item_or kvs k d)"
  by (simp add: item_or_def)

lemma str_join_closed:
  "str_join sep xs = drop (length sep) (concat (map (\<lambda>x. sep @ x) xs))"
  by (induction sep xs rule: str_join.induct) simp_all

lemma strs_of_strings: "strs_of (map JStr ss) = Some ss"
  by (induction ss) simp_all




lemma join_comma: "str_join '', '' xs = drop 2 (concat (map (\<lambda>x. '', '' @ x) xs))"
  by (simp add: str_join_closed numeral_2_eq_2)

lemma py_join_field:
  "map_of kvs k = None \<and> ss = [] \<or> map_of kvs k = Some (JArr (map JStr ss)) \<Longrightarrow>
   py_join w sep (item_or kvs k (JArr [])) = Inr (str_join sep ss)"
  by (auto simp: item_or_def strs_of_strings)

lemma select_track_fetch:
  assumes "select_track w data = Inr (Some (JStr u))"
  shows "caption_stage w data =
           (then_do (run w (curl_cmd u) 30) (\<lambda>fetched. parse_transcript w (stdout fetched)),
            [curl_cmd u])"
  using assms by (simp add: caption_stage_def)

subsection \<open>The handler\<close>

lemma get_yt_dlp_data_Inr:
  assumes "get_yt_dlp_data w vid = (Inr d, c)"
  shows "\<exists>data tr. assemble w vid data tr = Inr d"
  using assms
  by (auto simp: get_yt_dlp_data_def get_yt_dlp_data_try_def Let_def
           split: sum.splits prod.splits if_splits)

lemma reraise_Exception: "\<exists>m. reraise e = PyExc Exception m"
  by (cases e rule: reraise.cases) simp_all

lemma get_yt_dlp_data_Inl:
  assumes "get_yt_dlp_data w vid = (Inl e, c)"
  shows "\<exists>m. e = PyExc Exception m"
  using assms reraise_Exception
  by (auto simp: get_yt_dlp_data_def split: sum.splits prod.splits)

lemma getitems_assembled:
  "getitems w
     [(''videoTitle'', v1), (''videoId'', v2), (''channelName'', v3),
      (''channelUrl'', v4), (''description'', v5), (''duration'', v6),
      (''viewCount'', v7), (''likeCount'', v8), (''uploadDate'', v9),
      (''tags'', v10), (''categories'', v11), (''thumbnailUrl'', v12),
      (''transcript'', v13), (''length'', v14)] response_keys =
   Inr [(''videoTitle'', v1), (''channelName'', v3),
      (''channelUrl'', v4), (''description'', v5), (''duration'', v6),
      (''viewCount'', v7), (''likeCount'', v8), (''uploadDate'', v9),
      (''tags'', v10), (''categories'', v11), (''thumbnailUrl'', v12),
      (''transcript'', v13), (''length'', v14)]"
  by (simp add: response_keys_def)

lemma validated_success:
  assumes "validated w
     [(''success'', JBool True), (''videoId'', JStr vid), (''videoTitle'', v1), (''channelName'', v3),
      (''channelUrl'', v4), (''description'', v5), (''duration'', v6),
      (''viewCount'', v7), (''likeCount'', v8), (''uploadDate'', v9),
      (''tags'', JStr v10), (''categories'', JStr v11), (''thumbnailUrl'', v12),
      (''transcript'', JStr tr), (''length'', JInt n)] = Some r"
  shows "success r \<and> videoId r = vid \<and> tags r = Some v10 \<and> categories r = Some v11
       \<and> transcript r = Some tr \<and> length_field r = Some n \<and> error r = None"
  using assms
  by (auto simp: validated_def Option.bind_eq_Some_conv)

lemma get_transcript_assembled:
  assumes "length (extract_video_id (video_id request)) = 11"
    and "get_yt_dlp_data w (extract_video_id (video_id request)) = (Inr d, c)"
    and "assemble w vid' data tr = Inr d"
  shows "(\<exists>r. get_transcript w request = (Inr r, c) \<and> success r
              \<and> videoId r = extract_video_id (video_id request)
              \<and> transcript r = Some tr \<and> length_field r = Some (int (length tr))
              \<and> error r = None)
       \<or> (\<exists>m. get_transcript w request = (Inr (failure_response (video_id request) m), c))"
proof -
  obtain v1 v3 v4 v5 v6 v7 v8 v9 v10 v11 v12 where d:
    "d = [(''videoTitle'', v1), (''videoId'', JStr vid'), (''channelName'', v3),
          (''channelUrl'', v4), (''description'', v5), (''duration'', v6),
          (''viewCount'', v7), (''likeCount'', v8), (''uploadDate'', v9),
          (''tags'', JStr v10), (''categories'', JStr v11), (''thumbnailUrl'', v12),
          (''transcript'', JStr tr), (''length'', JInt (int (length tr)))]"
    using assemble_shape [OF assms(3)] by blast
  let ?kw = "[(''success'', JBool True), (''videoId'', JStr (extract_video_id (video_id request))),
      (''videoTitle'', v1), (''channelName'', v3),
      (''channelUrl'', v4), (''description'', v5), (''duration'', v6),
      (''viewCount'', v7), (''likeCount'', v8), (''uploadDate'', v9),
      (''tags'', JStr v10), (''categories'', JStr v11), (''thumbnailUrl'', v12),
      (''transcript'', JStr tr), (''length'', JInt (int (length tr)))]"
  have g: "get_transcript_try w request =
      (case TranscriptResponse_init w ?kw of Inl e \<Rightarrow> (Inl (Other e), c) | Inr r \<Rightarrow> (Inr r, c))"
    using assms(1,2) unfolding d
    by (simp add: get_transcript_try_def Let_def getitems_assembled)
  show ?thesis
  proof (cases "validated w ?kw")
    case None
    then have "TranscriptResponse_init w ?kw = Inl (PyExc ValidationError (validation_msg w ?kw))"
      by (simp add: TranscriptResponse_init_def)
    then have "get_transcript w request =
        (Inr (failure_response (video_id request) (validation_msg w ?kw)), c)"
      by (simp add: get_transcript_def g init_failure)
    then show ?thesis by blast
  next
    case (Some r)
    then have "TranscriptResponse_init w ?kw = Inr r"
      by (simp add: TranscriptResponse_init_def)
    then have "get_transcript w request = (Inr r, c)"
      by (simp add: get_transcript_def g)
    with validated_success [OF Some] show ?thesis by blast
  qed
qed

lemma get_transcript_response:
  assumes "length (extract_video_id (video_id request)) = 11"
  shows "\<exists>r c. get_transcript w request = (Inr r, c) \<and>
           (success r \<and> videoId r = extract_video_id (video_id request) \<and> error r = None
            \<or> (\<exists>m. r = failure_response (video_id request) m))"
proof (cases "get_yt_dlp_data w (extract_video_id (video_id request))")
  case (Pair res c)
  show ?thesis
  proof (cases res)
    case (Inl e)
    with Pair assms show ?thesis
      using get_transcript_inner_failure [of request w e c] by blast
  next
    case (Inr d)
    with Pair obtain data tr where "assemble w (extract_video_id (video_id request)) data tr = Inr d"
      using get_yt_dlp_data_Inr by blast
    with Pair Inr assms show ?thesis
      using get_transcript_assembled [of request w d c] by blast
  qed
qed

lemma get_transcript_fst_failure:
  "length (extract_video_id (video_id request)) = 11 \<Longrightarrow>
   get_yt_dlp_data w (extract_video_id (video_id request)) = (Inl (PyExc Exception m), c) \<Longrightarrow>
   get_transcript w request = (Inr (failure_response (video_id request) m), c)"
  using get_transcript_inner_failure [of request w "PyExc Exception m" c] by simp

section \<open>The claims\<close>

text \<open>
  C1.  \<open>extract_video_id\<close> tries the three patterns in order and returns group 1 of the
  first that matches, else its input (\<open>extract_video_id_unfold\<close>); a result that is
  not the input is 11 identifier characters (\<open>extract_video_id_shape\<close>).  The third
  pattern, however, is not ``the whole input is exactly an 11-character identifier'':
  \<open>$\<close> also matches before a final line feed, so for the 12-character input
  \<open>dQw4w9WgXcQ\<newline>\<close> the function returns the first 11 characters where the
  normalizer as specified returns the input unchanged.  By \<open>extract_video_id_vs_spec\<close>
  inputs of this form are the only ones on which the two differ.
\<close>

theorem trailing_line_feed_is_accepted:
  "extract_video_id (''dQw4w9WgXcQ'' @ [CHR 0x0A]) = ''dQw4w9WgXcQ''
   \<and> normalizer_spec (''dQw4w9WgXcQ'' @ [CHR 0x0A]) = ''dQw4w9WgXcQ'' @ [CHR 0x0A]
   \<and> length (''dQw4w9WgXcQ'' @ [CHR 0x0A]) = 12"
  by code_simp

text \<open>
  C2.  A request whose identifier, after \<open>extract_video_id\<close>, is not exactly 11
  characters long is answered by both handlers with an \<open>HTTPException\<close> of status 400
  whose detail names the identifier; the exception leaves the handler, so no
  \<open>TranscriptResponse\<close> is returned, and no subprocess is run.
\<close>

theorem invalid_identifier_is_http_400:
  assumes "length (extract_video_id raw) \<noteq> 11"
  shows "get_transcript w \<lparr>video_id = raw\<rparr> =
           (Inl (HTTPException 400
              (''Invalid video_id: '' @ extract_video_id raw @ ''. Must be 11 characters.'')), [])
       \<and> get_transcript_get w raw =
           (Inl (HTTPException 400
              (''Invalid video_id: '' @ extract_video_id raw @ ''. Must be 11 characters.'')), [])
       \<and> (\<forall>r. fst (get_transcript w \<lparr>video_id = raw\<rparr>) \<noteq> Inr r)
       \<and> (\<forall>r. fst (get_transcript_get w raw) \<noteq> Inr r)"
  using assms get_transcript_invalid [of "\<lparr>video_id = raw\<rparr>" w]
  by (simp add: get_transcript_get_def)

theorem invalid_identifier_is_http_400_witness:
  "length (extract_video_id ''https://example.com/watch'') \<noteq> 11
   \<and> get_transcript
         (stub (completed 0 [] []) (Inr (JObj [])) (completed 0 [] []) (Inr (Element [] None [])))
         \<lparr>video_id = ''https://example.com/watch''\<rparr> =
       (Inl (HTTPException 400
          ''Invalid video_id: https://example.com/watch. Must be 11 characters.''), [])
   \<and> get_transcript_get
         (stub (completed 0 [] []) (Inr (JObj [])) (completed 0 [] []) (Inr (Element [] None [])))
         ''https://example.com/watch'' =
       (Inl (HTTPException 400
          ''Invalid video_id: https://example.com/watch. Must be 11 characters.''), [])"
proof -
  have n: "extract_video_id ''https://example.com/watch'' = ''https://example.com/watch''"
    by code_simp
  have h: "length (extract_video_id ''https://example.com/watch'') \<noteq> 11"
    unfolding n by simp
  show ?thesis
    using h invalid_identifier_is_http_400 [OF h,
        of "stub (completed 0 [] []) (Inr (JObj [])) (completed 0 [] []) (Inr (Element [] None []))"]
    by (simp add: n)
qed

text \<open>
  C3.  The caption stage looks at \<open>'en' in data['subtitles']\<close> first: when that holds
  the manual track is the one fetched, whatever \<open>automatic_captions\<close> holds.  Only when
  it does not hold is \<open>'en' in data['automatic_captions']\<close> looked at, and that track
  fetched.  When neither holds the transcript is the empty string and the stage runs
  no command; \<open>get_yt_dlp_data\<close> then has run the extraction tool only, and the
  dictionary it returns has \<open>transcript\<close> \<open>""\<close> and \<open>length\<close> 0.
\<close>

theorem caption_track_priority:
  "(has_en w ''subtitles'' data = Inr True \<longrightarrow>
      caption_stage w data =
        (case track_url w ''subtitles'' data of
           Inl e \<Rightarrow> (Inl e, [])
         | Inr sub_file \<Rightarrow> fetch_transcript w sub_file))
   \<and> (has_en w ''subtitles'' data = Inr False \<and> has_en w ''automatic_captions'' data = Inr True \<longrightarrow>
      caption_stage w data =
        (case track_url w ''automatic_captions'' data of
           Inl e \<Rightarrow> (Inl e, [])
         | Inr sub_file \<Rightarrow> fetch_transcript w sub_file))
   \<and> (has_en w ''subtitles'' data = Inr False \<and> has_en w ''automatic_captions'' data = Inr False \<longrightarrow>
      caption_stage w data = (Inr [], []) \<and>
      (\<forall>vid result.
         run w (yt_dlp_cmd vid) 60 = Inr result \<and> returncode result = 0 \<and>
         loads w (stdout result) = Inr data \<longrightarrow>
           snd (get_yt_dlp_data w vid) = [yt_dlp_cmd vid] \<and>
           (\<forall>d. fst (get_yt_dlp_data w vid) = Inr d \<longrightarrow>
              map_of d ''transcript'' = Some (JStr []) \<and> map_of d ''length'' = Some (JInt 0))))"
proof (intro conjI impI allI)
  assume "has_en w ''subtitles'' data = Inr True"
  then show "caption_stage w data =
        (case track_url w ''subtitles'' data of
           Inl e \<Rightarrow> (Inl e, [])
         | Inr sub_file \<Rightarrow> fetch_transcript w sub_file)"
    by (rule caption_stage_manual)
next
  assume "has_en w ''subtitles'' data = Inr False \<and> has_en w ''automatic_captions'' data = Inr True"
  then show "caption_stage w data =
        (case track_url w ''automatic_captions'' data of
           Inl e \<Rightarrow> (Inl e, [])
         | Inr sub_file \<Rightarrow> fetch_transcript w sub_file)"
    by (simp add: caption_stage_automatic)
next
  assume "has_en w ''subtitles'' data = Inr False \<and> has_en w ''automatic_captions'' data = Inr False"
  then show "caption_stage w data = (Inr [], [])"
    by (simp add: caption_stage_none)
next
  fix vid result
  assume n: "has_en w ''subtitles'' data = Inr False \<and> has_en w ''automatic_captions'' data = Inr False"
    and r: "run w (yt_dlp_cmd vid) 60 = Inr result \<and> returncode result = 0 \<and>
         loads w (stdout result) = Inr data"
  from n have c: "caption_stage w data = (Inr [], [])"
    by (simp add: caption_stage_none)
  from r have g: "get_yt_dlp_data w vid =
      (case assemble w vid data [] of
         Inl e \<Rightarrow> (Inl (reraise e), [yt_dlp_cmd vid])
       | Inr d \<Rightarrow> (Inr d, [yt_dlp_cmd vid]))"
    using tool_loaded [of w vid result data] by (simp add: c)
  show "snd (get_yt_dlp_data w vid) = [yt_dlp_cmd vid]"
    by (simp add: g split: sum.splits)
  fix d
  assume "fst (get_yt_dlp_data w vid) = Inr d"
  then have "assemble w vid data [] = Inr d"
    by (simp add: g split: sum.splits)
  from assemble_transcript [OF this]
  show "map_of d ''transcript'' = Some (JStr [])" and "map_of d ''length'' = Some (JInt 0)"
    by simp_all
qed

theorem caption_track_priority_witness:
  "has_en (stub (completed 0 [] []) (Inr both_record) (completed 0 [] []) (Inr hello_doc))
      ''subtitles'' both_record = Inr True
   \<and> has_en (stub (completed 0 [] []) (Inr both_record) (completed 0 [] []) (Inr hello_doc))
      ''automatic_captions'' both_record = Inr True
   \<and> caption_stage (stub (completed 0 [] []) (Inr both_record) (completed 0 [] []) (Inr hello_doc))
      both_record = (Inr ''Hello world'', [[''curl'', ''-s'', ''https://example.com/manual'']])
   \<and> has_en (stub (completed 0 [] []) (Inr auto_record) (completed 0 [] []) (Inr hello_doc))
      ''subtitles'' auto_record = Inr False
   \<and> has_en (stub (completed 0 [] []) (Inr auto_record) (completed 0 [] []) (Inr hello_doc))
      ''automatic_captions'' auto_record = Inr True
   \<and> caption_stage (stub (completed 0 [] []) (Inr auto_record) (completed 0 [] []) (Inr hello_doc))
      auto_record = (Inr ''Hello world'', [[''curl'', ''-s'', ''https://example.com/auto'']])
   \<and> has_en (stub (completed 0 [] []) (Inr bare_record) (completed 0 [] []) (Inr hello_doc))
      ''subtitles'' bare_record = Inr False
   \<and> has_en (stub (completed 0 [] []) (Inr bare_record) (completed 0 [] []) (Inr hello_doc))
      ''automatic_captions'' bare_record = Inr False
   \<and> caption_stage (stub (completed 0 [] []) (Inr bare_record) (completed 0 [] []) (Inr hello_doc))
      bare_record = (Inr [], [])
   \<and> snd (get_yt_dlp_data
        (stub (completed 0 [] []) (Inr bare_record) (completed 0 [] []) (Inr hello_doc))
        ''dQw4w9WgXcQ'') = [yt_dlp_cmd ''dQw4w9WgXcQ'']"
proof -
  let ?b = "stub (completed 0 [] []) (Inr both_record) (completed 0 [] []) (Inr hello_doc)"
  let ?a = "stub (completed 0 [] []) (Inr auto_record) (completed 0 [] []) (Inr hello_doc)"
  let ?n = "stub (completed 0 [] []) (Inr bare_record) (completed 0 [] []) (Inr hello_doc)"
  have b1: "has_en ?b ''subtitles'' both_record = Inr True" by code_simp
  have b2: "has_en ?b ''automatic_captions'' both_record = Inr True" by code_simp
  have b3: "(case track_url ?b ''subtitles'' both_record of
           Inl e \<Rightarrow> (Inl e, [])
         | Inr sub_file \<Rightarrow> fetch_transcript ?b sub_file) =
         (Inr ''Hello world'', [[''curl'', ''-s'', ''https://example.com/manual'']])" by code_simp
  have a1: "has_en ?a ''subtitles'' auto_record = Inr False" by code_simp
  have a2: "has_en ?a ''automatic_captions'' auto_record = Inr True" by code_simp
  have a3: "(case track_url ?a ''automatic_captions'' auto_record of
           Inl e \<Rightarrow> (Inl e, [])
         | Inr sub_file \<Rightarrow> fetch_transcript ?a sub_file) =
         (Inr ''Hello world'', [[''curl'', ''-s'', ''https://example.com/auto'']])" by code_simp
  have n1: "has_en ?n ''subtitles'' bare_record = Inr False" by code_simp
  have n2: "has_en ?n ''automatic_captions'' bare_record = Inr False" by code_simp
  have n3: "run ?n (yt_dlp_cmd ''dQw4w9WgXcQ'') 60 = Inr \<lparr>returncode = 0, stdout = [], stderr = []\<rparr>"
    by code_simp
  have n4: "loads ?n [] = Inr bare_record" by (simp add: stub_def)
  show ?thesis
    using caption_track_priority [of ?b both_record] caption_track_priority [of ?a auto_record]
      caption_track_priority [of ?n bare_record] b1 b2 b3 a1 a2 a3 n1 n2 n3 n4
    by simp
qed




text \<open>
  C5.  For an extraction record whose \<open>tags\<close> and \<open>categories\<close> are absent or lists of
  strings, the assembler returns the dictionary below, whatever the world: every
  field is the record's value, with \<open>""\<close> for an absent text, date or thumbnail field
  and 0 for an absent duration, view count or like count; \<open>tags\<close> and \<open>categories\<close>
  are all the items of the list joined by \<open>", "\<close> (every item preceded by \<open>", "\<close>,
  the first two characters dropped), the empty string for an absent or empty list.
  The tags \<open>["music", "live"]\<close> give \<open>"music, live"\<close>.
\<close>

theorem assemble_substitutes_defaults:
  assumes "map_of kvs ''tags'' = None \<and> tag_list = []
         \<or> map_of kvs ''tags'' = Some (JArr (map JStr tag_list))"
    and "map_of kvs ''categories'' = None \<and> category_list = []
         \<or> map_of kvs ''categories'' = Some (JArr (map JStr category_list))"
  shows "assemble w vid (JObj kvs) tr =
     Inr [(''videoTitle'', item_or kvs ''title'' (JStr [])),
          (''videoId'', JStr vid),
          (''channelName'', item_or kvs ''channel'' (JStr [])),
          (''channelUrl'', item_or kvs ''channel_url'' (JStr [])),
          (''description'', item_or kvs ''description'' (JStr [])),
          (''duration'', item_or kvs ''duration'' (JInt 0)),
          (''viewCount'', item_or kvs ''view_count'' (JInt 0)),
          (''likeCount'', item_or kvs ''like_count'' (JInt 0)),
          (''uploadDate'', item_or kvs ''upload_date'' (JStr [])),
          (''tags'', JStr (drop 2 (concat (map (\<lambda>t. '', '' @ t) tag_list)))),
          (''categories'', JStr (drop 2 (concat (map (\<lambda>t. '', '' @ t) category_list)))),
          (''thumbnailUrl'', item_or kvs ''thumbnail'' (JStr [])),
          (''transcript'', JStr tr),
          (''length'', JInt (int (length tr)))]
       \<and> (tag_list = [''music'', ''live''] \<longrightarrow>
             drop 2 (concat (map (\<lambda>t. '', '' @ t) tag_list)) = ''music, live'')
       \<and> (tag_list = [] \<longrightarrow> drop 2 (concat (map (\<lambda>t. '', '' @ t) tag_list)) = [])"
proof -
  have t: "py_join w '', '' (item_or kvs ''tags'' (JArr [])) =
      Inr (drop 2 (concat (map (\<lambda>t. '', '' @ t) tag_list)))"
    using py_join_field [OF assms(1)] by (simp add: join_comma)
  have c: "py_join w '', '' (item_or kvs ''categories'' (JArr [])) =
      Inr (drop 2 (concat (map (\<lambda>t. '', '' @ t) category_list)))"
    using py_join_field [OF assms(2)] by (simp add: join_comma)
  have "assemble w vid (JObj kvs) tr =
     Inr [(''videoTitle'', item_or kvs ''title'' (JStr [])),
          (''videoId'', JStr vid),
          (''channelName'', item_or kvs ''channel'' (JStr [])),
          (''channelUrl'', item_or kvs ''channel_url'' (JStr [])),
          (''description'', item_or kvs ''description'' (JStr [])),
          (''duration'', item_or kvs ''duration'' (JInt 0)),
          (''viewCount'', item_or kvs ''view_count'' (JInt 0)),
          (''likeCount'', item_or kvs ''like_count'' (JInt 0)),
          (''uploadDate'', item_or kvs ''upload_date'' (JStr [])),
          (''tags'', JStr (drop 2 (concat (map (\<lambda>t. '', '' @ t) tag_list)))),
          (''categories'', JStr (drop 2 (concat (map (\<lambda>t. '', '' @ t) category_list)))),
          (''thumbnailUrl'', item_or kvs ''thumbnail'' (JStr [])),
          (''transcript'', JStr tr),
          (''length'', JInt (int (length tr)))]"
    by (simp add: assemble_def py_get_dict t c del: py_get.simps)
  then show ?thesis by simp
qed

theorem assemble_substitutes_defaults_witness:
  "map_of [(''title'', JStr ''Demo''), (''tags'', JArr [JStr ''music'', JStr ''live''])] ''tags'' =
     Some (JArr (map JStr [''music'', ''live'']))
   \<and> map_of [(''title'', JStr ''Demo''), (''tags'', JArr [JStr ''music'', JStr ''live''])]
        ''categories'' = None
   \<and> assemble (stub (completed 0 [] []) (Inr JNull) (completed 0 [] []) (Inr hello_doc)) ''dQw4w9WgXcQ''
        (JObj [(''title'', JStr ''Demo''), (''tags'', JArr [JStr ''music'', JStr ''live''])])
        ''Hello world'' =
       Inr [(''videoTitle'', JStr ''Demo''),
            (''videoId'', JStr ''dQw4w9WgXcQ''),
            (''channelName'', JStr []),
            (''channelUrl'', JStr []),
            (''description'', JStr []),
            (''duration'', JInt 0),
            (''viewCount'', JInt 0),
            (''likeCount'', JInt 0),
            (''uploadDate'', JStr []),
            (''tags'', JStr ''music, live''),
            (''categories'', JStr []),
            (''thumbnailUrl'', JStr []),
            (''transcript'', JStr ''Hello world''),
            (''length'', JInt 11)]
   \<and> assemble (stub (completed 0 [] []) (Inr JNull) (completed 0 [] []) (Inr hello_doc)) ''dQw4w9WgXcQ''
        (JObj [(''duration'', JInt 212), (''tags'', JArr [JStr ''a'', JStr ''b'', JStr ''c'']),
               (''categories'', JArr [JStr ''Music''])])
        [] =
       Inr [(''videoTitle'', JStr []),
            (''videoId'', JStr ''dQw4w9WgXcQ''),
            (''channelName'', JStr []),
            (''channelUrl'', JStr []),
            (''description'', JStr []),
            (''duration'', JInt 212),
            (''viewCount'', JInt 0),
            (''likeCount'', JInt 0),
            (''uploadDate'', JStr []),
            (''tags'', JStr ''a, b, c''),
            (''categories'', JStr ''Music''),
            (''thumbnailUrl'', JStr []),
            (''transcript'', JStr []),
            (''length'', JInt 0)]"
proof -
  let ?w = "stub (completed 0 [] []) (Inr JNull) (completed 0 [] []) (Inr hello_doc)"
  let ?kvs = "[(''title'', JStr ''Demo''), (''tags'', JArr [JStr ''music'', JStr ''live''])]"
  let ?kvs2 = "[(''duration'', JInt 212), (''tags'', JArr [JStr ''a'', JStr ''b'', JStr ''c'']),
               (''categories'', JArr [JStr ''Music''])]"
  have t: "map_of ?kvs ''tags'' = None \<and> [''music'', ''live''] = []
      \<or> map_of ?kvs ''tags'' = Some (JArr (map JStr [''music'', ''live'']))" by simp
  have c: "map_of ?kvs ''categories'' = None \<and> ([] :: string list) = []
      \<or> map_of ?kvs ''categories'' = Some (JArr (map JStr []))" by simp
  have t2: "map_of ?kvs2 ''tags'' = None \<and> [''a'', ''b'', ''c''] = []
      \<or> map_of ?kvs2 ''tags'' = Some (JArr (map JStr [''a'', ''b'', ''c'']))" by simp
  have c2: "map_of ?kvs2 ''categories'' = None \<and> [''Music''] = []
      \<or> map_of ?kvs2 ''categories'' = Some (JArr (map JStr [''Music'']))" by simp
  show ?thesis
    using assemble_substitutes_defaults [OF t c, of ?w "''dQw4w9WgXcQ''" "''Hello world''"]
      assemble_substitutes_defaults [OF t2 c2, of ?w "''dQw4w9WgXcQ''" "[]"]
    by (simp add: item_or_def)
qed

text \<open>
  C6.  When the identifier is valid and the extraction tool exceeds its 60 seconds, or
  the tool succeeds, a track is selected and its fetch exceeds its 30 seconds, the
  handler returns (status 200) the failure response whose \<open>error\<close> is exactly
  \<open>Request timeout\<close>.
\<close>

theorem timeout_is_structured_failure:
  assumes "extract_video_id (video_id request) = vid" and "length vid = 11"
    and "run w (yt_dlp_cmd vid) 60 = Inl (PyExc TimeoutExpired m)
       \<or> (\<exists>result data u.
             run w (yt_dlp_cmd vid) 60 = Inr result \<and> returncode result = 0 \<and>
             loads w (stdout result) = Inr data \<and>
             select_track w data = Inr (Some (JStr u)) \<and>
             run w (curl_cmd u) 30 = Inl (PyExc TimeoutExpired m))"
  shows "fst (get_transcript w request) =
           Inr (failure_response (video_id request) ''Request timeout'')
       \<and> success (failure_response (video_id request) ''Request timeout'') = False
       \<and> error (failure_response (video_id request) ''Request timeout'') = Some ''Request timeout''"
proof -
  have "\<exists>c. get_yt_dlp_data w vid = (Inl (PyExc Exception ''Request timeout''), c)"
    using assms(3)
  proof (elim disjE exE conjE)
    assume "run w (yt_dlp_cmd vid) 60 = Inl (PyExc TimeoutExpired m)"
    from tool_raises [OF this] show ?thesis by simp
  next
    fix result data u
    assume r: "run w (yt_dlp_cmd vid) 60 = Inr result" "returncode result = 0"
      "loads w (stdout result) = Inr data"
      and s: "select_track w data = Inr (Some (JStr u))"
      and t: "run w (curl_cmd u) 30 = Inl (PyExc TimeoutExpired m)"
    have "caption_stage w data = (Inl (PyExc TimeoutExpired m), [curl_cmd u])"
      by (simp add: select_track_fetch [OF s] t)
    with tool_loaded [OF r] show ?thesis by simp
  qed
  then obtain c where "get_yt_dlp_data w vid = (Inl (PyExc Exception ''Request timeout''), c)" ..
  from get_transcript_fst_failure [of request w, unfolded assms(1), OF assms(2) this]
  show ?thesis by (simp add: failure_response_def)
qed

theorem timeout_is_structured_failure_witness:
  "extract_video_id ''https://youtu.be/dQw4w9WgXcQ'' = ''dQw4w9WgXcQ''
   \<and> run (stub (Inl (PyExc TimeoutExpired ''timed out after 60 seconds'')) (Inr both_record)
            (completed 0 [] []) (Inr hello_doc)) (yt_dlp_cmd ''dQw4w9WgXcQ'') 60 =
       Inl (PyExc TimeoutExpired ''timed out after 60 seconds'')
   \<and> fst (get_transcript
          (stub (Inl (PyExc TimeoutExpired ''timed out after 60 seconds'')) (Inr both_record)
             (completed 0 [] []) (Inr hello_doc))
          \<lparr>video_id = ''https://youtu.be/dQw4w9WgXcQ''\<rparr>) =
       Inr (failure_response ''https://youtu.be/dQw4w9WgXcQ'' ''Request timeout'')
   \<and> run (stub (completed 0 [] []) (Inr both_record)
            (Inl (PyExc TimeoutExpired ''timed out after 30 seconds'')) (Inr hello_doc))
         (curl_cmd ''https://example.com/manual'') 30 =
       Inl (PyExc TimeoutExpired ''timed out after 30 seconds'')
   \<and> fst (get_transcript
          (stub (completed 0 [] []) (Inr both_record)
             (Inl (PyExc TimeoutExpired ''timed out after 30 seconds'')) (Inr hello_doc))
          \<lparr>video_id = ''https://youtu.be/dQw4w9WgXcQ''\<rparr>) =
       Inr (failure_response ''https://youtu.be/dQw4w9WgXcQ'' ''Request timeout'')"
proof -
  let ?t = "stub (Inl (PyExc TimeoutExpired ''timed out after 60 seconds'')) (Inr both_record)
            (completed 0 [] []) (Inr hello_doc)"
  let ?f = "stub (completed 0 [] []) (Inr both_record)
            (Inl (PyExc TimeoutExpired ''timed out after 30 seconds'')) (Inr hello_doc)"
  let ?q = "\<lparr>video_id = ''https://youtu.be/dQw4w9WgXcQ''\<rparr>"
  have n: "extract_video_id (video_id ?q) = ''dQw4w9WgXcQ''" by code_simp
  have l: "length ''dQw4w9WgXcQ'' = 11" by simp
  have t: "run ?t (yt_dlp_cmd ''dQw4w9WgXcQ'') 60 =
      Inl (PyExc TimeoutExpired ''timed out after 60 seconds'')" by code_simp
  have f: "run ?f (yt_dlp_cmd ''dQw4w9WgXcQ'') 60 = Inr \<lparr>returncode = 0, stdout = [], stderr = []\<rparr>
      \<and> returncode \<lparr>returncode = 0, stdout = [], stderr = []\<rparr> = 0
      \<and> loads ?f (stdout \<lparr>returncode = 0, stdout = [], stderr = []\<rparr>) = Inr both_record
      \<and> select_track ?f both_record = Inr (Some (JStr ''https://example.com/manual''))
      \<and> run ?f (curl_cmd ''https://example.com/manual'') 30 =
          Inl (PyExc TimeoutExpired ''timed out after 30 seconds'')" by code_simp
  from t have t': "run ?t (yt_dlp_cmd ''dQw4w9WgXcQ'') 60 =
        Inl (PyExc TimeoutExpired ''timed out after 60 seconds'')
       \<or> (\<exists>result data u.
             run ?t (yt_dlp_cmd ''dQw4w9WgXcQ'') 60 = Inr result \<and> returncode result = 0 \<and>
             loads ?t (stdout result) = Inr data \<and>
             select_track ?t data = Inr (Some (JStr u)) \<and>
             run ?t (curl_cmd u) 30 = Inl (PyExc TimeoutExpired ''timed out after 60 seconds''))"
    by (rule disjI1)
  from f have f': "run ?f (yt_dlp_cmd ''dQw4w9WgXcQ'') 60 =
        Inl (PyExc TimeoutExpired ''timed out after 30 seconds'')
       \<or> (\<exists>result data u.
             run ?f (yt_dlp_cmd ''dQw4w9WgXcQ'') 60 = Inr result \<and> returncode result = 0 \<and>
             loads ?f (stdout result) = Inr data \<and>
             select_track ?f data = Inr (Some (JStr u)) \<and>
             run ?f (curl_cmd u) 30 = Inl (PyExc TimeoutExpired ''timed out after 30 seconds''))"
    by blast
  show ?thesis
    using timeout_is_structured_failure [OF n l t'] timeout_is_structured_failure [OF n l f'] n t f
    by simp
qed

text \<open>
  C7, as amended.  When the identifier is valid, the extraction tool exits with code 0
  and its output is not JSON, the handler returns the failure response whose \<open>error\<close>
  is exactly \<open>Invalid JSON response from yt-dlp\<close>.
\<close>

theorem invalid_json_is_structured_failure:
  assumes "extract_video_id (video_id request) = vid" and "length vid = 11"
    and "run w (yt_dlp_cmd vid) 60 = Inr result" and "returncode result = 0"
    and "loads w (stdout result) = Inl (PyExc JSONDecodeError m)"
  shows "get_transcript w request =
           (Inr (failure_response (video_id request) ''Invalid JSON response from yt-dlp''),
            [yt_dlp_cmd vid])
       \<and> success (failure_response (video_id request) ''Invalid JSON response from yt-dlp'') = False
       \<and> error (failure_response (video_id request) ''Invalid JSON response from yt-dlp'') =
           Some ''Invalid JSON response from yt-dlp''"
proof -
  have "get_yt_dlp_data w vid =
      (Inl (PyExc Exception ''Invalid JSON response from yt-dlp''), [yt_dlp_cmd vid])"
    using tool_bad_output [OF assms(3,4,5)] by simp
  from get_transcript_fst_failure [of request w, unfolded assms(1), OF assms(2) this]
  show ?thesis by (simp add: failure_response_def)
qed

theorem invalid_json_is_structured_failure_witness:
  "extract_video_id ''dQw4w9WgXcQ'' = ''dQw4w9WgXcQ''
   \<and> loads (stub (completed 0 ''<html>'' []) (Inl (PyExc JSONDecodeError ''Expecting value''))
              (completed 0 [] []) (Inr hello_doc)) ''<html>'' =
       Inl (PyExc JSONDecodeError ''Expecting value'')
   \<and> get_transcript
         (stub (completed 0 ''<html>'' []) (Inl (PyExc JSONDecodeError ''Expecting value''))
              (completed 0 [] []) (Inr hello_doc))
         \<lparr>video_id = ''dQw4w9WgXcQ''\<rparr> =
       (Inr (failure_response ''dQw4w9WgXcQ'' ''Invalid JSON response from yt-dlp''),
        [yt_dlp_cmd ''dQw4w9WgXcQ''])"
proof -
  let ?w = "stub (completed 0 ''<html>'' []) (Inl (PyExc JSONDecodeError ''Expecting value''))
              (completed 0 [] []) (Inr hello_doc)"
  let ?q = "\<lparr>video_id = ''dQw4w9WgXcQ''\<rparr>"
  have n: "extract_video_id (video_id ?q) = ''dQw4w9WgXcQ''" by code_simp
  have l: "length ''dQw4w9WgXcQ'' = 11" by simp
  have r: "run ?w (yt_dlp_cmd ''dQw4w9WgXcQ'') 60 =
      Inr \<lparr>returncode = 0, stdout = ''<html>'', stderr = []\<rparr>" by code_simp
  have z: "returncode \<lparr>returncode = 0, stdout = ''<html>'', stderr = []\<rparr> = 0" by simp
  have j: "loads ?w (stdout \<lparr>returncode = 0, stdout = ''<html>'', stderr = []\<rparr>) =
      Inl (PyExc JSONDecodeError ''Expecting value'')" by (simp add: stub_def)
  show ?thesis
    using invalid_json_is_structured_failure [OF n l r z j] n j
    by simp
qed

text \<open>
  C7 as stated fails: on output that is not JSON the \<open>error\<close> field is not
  \<open>Invalid JSON response\<close>.
\<close>

theorem invalid_json_message_counterexample:
  "run (stub (completed 0 ''<html>'' []) (Inl (PyExc JSONDecodeError ''Expecting value''))
              (completed 0 [] []) (Inr hello_doc)) (yt_dlp_cmd ''dQw4w9WgXcQ'') 60 =
       completed 0 ''<html>'' []
   \<and> loads (stub (completed 0 ''<html>'' []) (Inl (PyExc JSONDecodeError ''Expecting value''))
              (completed 0 [] []) (Inr hello_doc)) ''<html>'' =
       Inl (PyExc JSONDecodeError ''Expecting value'')
   \<and> fst (get_transcript
         (stub (completed 0 ''<html>'' []) (Inl (PyExc JSONDecodeError ''Expecting value''))
              (completed 0 [] []) (Inr hello_doc))
         \<lparr>video_id = ''dQw4w9WgXcQ''\<rparr>) \<noteq>
       Inr (failure_response ''dQw4w9WgXcQ'' ''Invalid JSON response'')
   \<and> error (failure_response ''dQw4w9WgXcQ'' ''Invalid JSON response from yt-dlp'') \<noteq>
       Some ''Invalid JSON response''
   \<and> fst (get_transcript
         (stub (completed 0 ''<html>'' []) (Inl (PyExc JSONDecodeError ''Expecting value''))
              (completed 0 [] []) (Inr hello_doc))
         \<lparr>video_id = ''dQw4w9WgXcQ''\<rparr>) =
       Inr (failure_response ''dQw4w9WgXcQ'' ''Invalid JSON response from yt-dlp'')"
  by code_simp

text \<open>
  C8, as amended.  When the identifier is valid and the extraction tool exits with a
  code other than 0, the handler returns the failure response whose \<open>error\<close> is
  \<open>Error: yt-dlp error: \<close> followed by the tool's standard error text.
\<close>

theorem tool_failure_carries_diagnostic:
  assumes "extract_video_id (video_id request) = vid" and "length vid = 11"
    and "run w (yt_dlp_cmd vid) 60 = Inr result" and "returncode result \<noteq> 0"
  shows "get_transcript w request =
           (Inr (failure_response (video_id request) (''Error: yt-dlp error: '' @ stderr result)),
            [yt_dlp_cmd vid])
       \<and> success (failure_response (video_id request) (''Error: yt-dlp error: '' @ stderr result)) = False
       \<and> error (failure_response (video_id request) (''Error: yt-dlp error: '' @ stderr result)) =
           Some (''Error: yt-dlp error: '' @ stderr result)"
proof -
  note tool_nonzero [OF assms(3,4)]
  from get_transcript_fst_failure [of request w, unfolded assms(1), OF assms(2) this]
  show ?thesis by (simp add: failure_response_def)
qed

theorem tool_failure_carries_diagnostic_witness:
  "extract_video_id ''dQw4w9WgXcQ'' = ''dQw4w9WgXcQ''
   \<and> run (stub (completed 1 [] ''ERROR: Video unavailable'') (Inr both_record)
            (completed 0 [] []) (Inr hello_doc)) (yt_dlp_cmd ''dQw4w9WgXcQ'') 60 =
       completed 1 [] ''ERROR: Video unavailable''
   \<and> get_transcript
         (stub (completed 1 [] ''ERROR: Video unavailable'') (Inr both_record)
            (completed 0 [] []) (Inr hello_doc))
         \<lparr>video_id = ''dQw4w9WgXcQ''\<rparr> =
       (Inr (failure_response ''dQw4w9WgXcQ'' ''Error: yt-dlp error: ERROR: Video unavailable''),
        [yt_dlp_cmd ''dQw4w9WgXcQ''])"
proof -
  let ?w = "stub (completed 1 [] ''ERROR: Video unavailable'') (Inr both_record)
            (completed 0 [] []) (Inr hello_doc)"
  let ?q = "\<lparr>video_id = ''dQw4w9WgXcQ''\<rparr>"
  have n: "extract_video_id (video_id ?q) = ''dQw4w9WgXcQ''" by code_simp
  have l: "length ''dQw4w9WgXcQ'' = 11" by simp
  have r: "run ?w (yt_dlp_cmd ''dQw4w9WgXcQ'') 60 =
      Inr \<lparr>returncode = 1, stdout = [], stderr = ''ERROR: Video unavailable''\<rparr>" by code_simp
  have z: "returncode \<lparr>returncode = 1, stdout = [], stderr = ''ERROR: Video unavailable''\<rparr> \<noteq> 0"
    by simp
  show ?thesis
    using tool_failure_carries_diagnostic [OF n l r z] n r
    by (simp add: completed_def)
qed

text \<open>
  C8 as stated fails: the \<open>error\<close> field is not the standard error text itself.
\<close>

theorem tool_diagnostic_counterexample:
  "run (stub (completed 1 [] ''ERROR: Video unavailable'') (Inr both_record)
            (completed 0 [] []) (Inr hello_doc)) (yt_dlp_cmd ''dQw4w9WgXcQ'') 60 =
       completed 1 [] ''ERROR: Video unavailable''
   \<and> fst (get_transcript
         (stub (completed 1 [] ''ERROR: Video unavailable'') (Inr both_record)
            (completed 0 [] []) (Inr hello_doc))
         \<lparr>video_id = ''dQw4w9WgXcQ''\<rparr>) \<noteq>
       Inr (failure_response ''dQw4w9WgXcQ'' ''ERROR: Video unavailable'')
   \<and> fst (get_transcript
         (stub (completed 1 [] ''ERROR: Video unavailable'') (Inr both_record)
            (completed 0 [] []) (Inr hello_doc))
         \<lparr>video_id = ''dQw4w9WgXcQ''\<rparr>) =
       Inr (failure_response ''dQw4w9WgXcQ'' ''Error: yt-dlp error: ERROR: Video unavailable'')
   \<and> error (failure_response ''dQw4w9WgXcQ'' ''Error: yt-dlp error: ERROR: Video unavailable'') \<noteq>
       Some ''ERROR: Video unavailable''"
  by code_simp

text \<open>
  C9.  For a request whose identifier is valid, every error caught by the second
  \<open>except\<close> clause yields the failure response whose \<open>videoId\<close> is the string of the
  request; and the response returned has as \<open>videoId\<close> the normalized identifier when
  \<open>success\<close> is true and the string of the request when it is false.
\<close>

theorem response_videoId:
  assumes "length (extract_video_id (video_id request)) = 11"
  shows "(\<forall>e c. get_transcript_try w request = (Inl (Other e), c) \<longrightarrow>
            get_transcript w request = (Inr (failure_response (video_id request) (str_exc e)), c)
            \<and> videoId (failure_response (video_id request) (str_exc e)) = video_id request)
       \<and> (\<exists>r. fst (get_transcript w request) = Inr r \<and>
            (if success r then videoId r = extract_video_id (video_id request)
             else videoId r = video_id request))"
proof (intro conjI allI impI)
  fix e c
  assume "get_transcript_try w request = (Inl (Other e), c)"
  then show "get_transcript w request = (Inr (failure_response (video_id request) (str_exc e)), c)"
    by (simp add: get_transcript_def init_failure)
  show "videoId (failure_response (video_id request) (str_exc e)) = video_id request"
    by (simp add: failure_response_def)
next
  from get_transcript_response [OF assms, of w]
  show "\<exists>r. fst (get_transcript w request) = Inr r \<and>
            (if success r then videoId r = extract_video_id (video_id request)
             else videoId r = video_id request)"
    by (auto simp: failure_response_def)
qed

theorem response_videoId_witness:
  "length (extract_video_id ''https://youtu.be/dQw4w9WgXcQ'') = 11
   \<and> extract_video_id ''https://youtu.be/dQw4w9WgXcQ'' \<noteq> ''https://youtu.be/dQw4w9WgXcQ''
   \<and> fst (get_transcript
         (stub (completed 1 [] ''ERROR: Video unavailable'') (Inr both_record)
            (completed 0 [] []) (Inr hello_doc))
         \<lparr>video_id = ''https://youtu.be/dQw4w9WgXcQ''\<rparr>) =
       Inr (failure_response ''https://youtu.be/dQw4w9WgXcQ''
              ''Error: yt-dlp error: ERROR: Video unavailable'')
   \<and> videoId (failure_response ''https://youtu.be/dQw4w9WgXcQ''
              ''Error: yt-dlp error: ERROR: Video unavailable'') = ''https://youtu.be/dQw4w9WgXcQ''
   \<and> fst (get_transcript
         (stub (completed 0 [] []) (Inr both_record) (completed 0 [] []) (Inr hello_doc))
         \<lparr>video_id = ''https://youtu.be/dQw4w9WgXcQ''\<rparr>) =
       Inr \<lparr>success = True, videoId = ''dQw4w9WgXcQ'', videoTitle = Some ''Demo'',
              channelName = Some [], channelUrl = Some [], description = Some [],
              duration = Some 0, viewCount = Some 0, likeCount = Some 0,
              uploadDate = Some [], tags = Some ''music, live'', categories = Some [],
              thumbnailUrl = Some [], transcript = Some ''Hello world'',
              length_field = Some 11, error = None\<rparr>"
proof -
  let ?bad = "stub (completed 1 [] ''ERROR: Video unavailable'') (Inr both_record)
            (completed 0 [] []) (Inr hello_doc)"
  let ?ok = "stub (completed 0 [] []) (Inr both_record) (completed 0 [] []) (Inr hello_doc)"
  let ?q = "\<lparr>video_id = ''https://youtu.be/dQw4w9WgXcQ''\<rparr>"
  have n: "extract_video_id ''https://youtu.be/dQw4w9WgXcQ'' = ''dQw4w9WgXcQ''" by code_simp
  have l: "length (extract_video_id (video_id ?q)) = 11" by (simp add: n)
  have b: "fst (get_transcript ?bad ?q) =
       Inr (failure_response ''https://youtu.be/dQw4w9WgXcQ''
              ''Error: yt-dlp error: ERROR: Video unavailable'')" by code_simp
  have s: "fst (get_transcript ?ok ?q) =
       Inr \<lparr>success = True, videoId = ''dQw4w9WgXcQ'', videoTitle = Some ''Demo'',
              channelName = Some [], channelUrl = Some [], description = Some [],
              duration = Some 0, viewCount = Some 0, likeCount = Some 0,
              uploadDate = Some [], tags = Some ''music, live'', categories = Some [],
              thumbnailUrl = Some [], transcript = Some ''Hello world'',
              length_field = Some 11, error = None\<rparr>" by code_simp
  show ?thesis
    using response_videoId [OF l, of ?bad] response_videoId [OF l, of ?ok] n b s
    by (simp add: failure_response_def)
qed

text \<open>
  C10.  When a track is selected, fetched and parsed, the caption stage yields a
  transcript if and only if every \<open>text\<close> element of the document has a text node.
  When one has none, \<open>join\<close> raises a \<open>TypeError\<close> and the handler returns the failure
  response whose \<open>error\<close> is \<open>Error: \<close> followed by the message of that error; it holds
  no transcript and no metadata.
\<close>

theorem missing_text_node_fails_request:
  assumes "extract_video_id (video_id request) = vid" and "length vid = 11"
    and "run w (yt_dlp_cmd vid) 60 = Inr result" and "returncode result = 0"
    and "loads w (stdout result) = Inr data"
    and "select_track w data = Inr (Some (JStr u))"
    and "run w (curl_cmd u) 30 = Inr fetched"
    and "fromstring w (stdout fetched) = Inr root"
  shows "((\<exists>tr. fst (caption_stage w data) = Inr tr) \<longleftrightarrow>
            (\<forall>e \<in> set (findall_text root). etext e \<noteq> None))
       \<and> ((\<exists>e \<in> set (findall_text root). etext e = None) \<longrightarrow>
            get_transcript w request =
              (Inr (failure_response (video_id request)
                 (''Error: '' @ describe w TypeError [JStr '' '', texts (findall_text root)])),
               [yt_dlp_cmd vid, curl_cmd u]))"
proof -
  note c = caption_stage_fetched [OF assms(6,7,8)]
  have a: "(\<exists>tr. fst (caption_stage w data) = Inr tr) \<longleftrightarrow>
            (\<forall>e \<in> set (findall_text root). etext e \<noteq> None)"
    by (simp add: c py_join_texts raise_def)
  have b: "get_transcript w request =
              (Inr (failure_response (video_id request)
                 (''Error: '' @ describe w TypeError [JStr '' '', texts (findall_text root)])),
               [yt_dlp_cmd vid, curl_cmd u])"
    if "\<exists>e \<in> set (findall_text root). etext e = None"
  proof -
    from that have "caption_stage w data =
        (Inl (PyExc TypeError (describe w TypeError [JStr '' '', texts (findall_text root)])),
         [curl_cmd u])"
      by (auto simp: c py_join_texts raise_def)
    with tool_loaded [OF assms(3,4,5)]
    have "get_yt_dlp_data w vid =
        (Inl (PyExc Exception
           (''Error: '' @ describe w TypeError [JStr '' '', texts (findall_text root)])),
         [yt_dlp_cmd vid, curl_cmd u])"
      by simp
    from get_transcript_fst_failure [of request w, unfolded assms(1), OF assms(2) this]
    show ?thesis .
  qed
  from a b show ?thesis by blast
qed

theorem missing_text_node_fails_request_witness:
  "extract_video_id ''dQw4w9WgXcQ'' = ''dQw4w9WgXcQ''
   \<and> map etext (findall_text gap_doc) = [Some ''Hello'', None]
   \<and> get_transcript
         (stub (completed 0 [] []) (Inr both_record) (completed 0 [] []) (Inr gap_doc))
         \<lparr>video_id = ''dQw4w9WgXcQ''\<rparr> =
       (Inr (failure_response ''dQw4w9WgXcQ'' ''Error: interpreter error''),
        [yt_dlp_cmd ''dQw4w9WgXcQ'', curl_cmd ''https://example.com/manual''])
   \<and> map etext (findall_text hello_doc) = [Some ''Hello'', Some ''world'']
   \<and> fst (caption_stage
         (stub (completed 0 [] []) (Inr both_record) (completed 0 [] []) (Inr hello_doc))
         both_record) = Inr ''Hello world''"
proof -
  let ?g = "stub (completed 0 [] []) (Inr both_record) (completed 0 [] []) (Inr gap_doc)"
  let ?h = "stub (completed 0 [] []) (Inr both_record) (completed 0 [] []) (Inr hello_doc)"
  let ?q = "\<lparr>video_id = ''dQw4w9WgXcQ''\<rparr>"
  let ?done = "\<lparr>returncode = 0, stdout = [], stderr = []\<rparr>"
  have n: "extract_video_id (video_id ?q) = ''dQw4w9WgXcQ''" by code_simp
  have l: "length ''dQw4w9WgXcQ'' = 11" by simp
  have z: "returncode ?done = 0" by simp
  have g1: "run ?g (yt_dlp_cmd ''dQw4w9WgXcQ'') 60 = Inr ?done" by code_simp
  have g2: "loads ?g (stdout ?done) = Inr both_record" by (simp add: stub_def)
  have g3: "select_track ?g both_record = Inr (Some (JStr ''https://example.com/manual''))"
    by code_simp
  have g4: "run ?g (curl_cmd ''https://example.com/manual'') 30 = Inr ?done" by code_simp
  have g5: "fromstring ?g (stdout ?done) = Inr gap_doc" by (simp add: stub_def)
  have g6: "map etext (findall_text gap_doc) = [Some ''Hello'', None]" by code_simp
  have g7: "describe ?g TypeError [JStr '' '', texts (findall_text gap_doc)] = ''interpreter error''"
    by (simp add: stub_def)
  have h1: "run ?h (yt_dlp_cmd ''dQw4w9WgXcQ'') 60 = Inr ?done" by code_simp
  have h2: "loads ?h (stdout ?done) = Inr both_record" by (simp add: stub_def)
  have h3: "select_track ?h both_record = Inr (Some (JStr ''https://example.com/manual''))"
    by code_simp
  have h4: "run ?h (curl_cmd ''https://example.com/manual'') 30 = Inr ?done" by code_simp
  have h5: "fromstring ?h (stdout ?done) = Inr hello_doc" by (simp add: stub_def)
  have h6: "map etext (findall_text hello_doc) = [Some ''Hello'', Some ''world'']" by code_simp
  have h7: "fst (caption_stage ?h both_record) = Inr ''Hello world''" by code_simp
  have g8: "\<exists>e \<in> set (findall_text gap_doc). etext e = None"
  proof -
    have "findall_text gap_doc = [Element ''text'' (Some ''Hello'') [], Element ''text'' None []]"
      by code_simp
    then show ?thesis by simp
  qed
  show ?thesis
    using missing_text_node_fails_request [OF n l g1 z g2 g3 g4 g5]
      missing_text_node_fails_request [OF n l h1 z h2 h3 h4 h5] n g6 g7 g8 h6 h7
    by simp
qed

end
